theory Spec2Isabelle
  imports Complex_Main "HOL-Library.Char_ord" "HOL-Library.List_Lexorder"
begin

section \<open>Tables\<close>

text \<open>
  The cleaning functions of \<^verbatim>\<open>package/cleaning.py\<close> work on pandas DataFrames. A cell is
  a number, a text, or the missing marker (NaN / None). Floating-point numbers are
  idealised as reals. A table is the ordered list of its named columns; rows are aligned
  by position.
\<close>

datatype cell = Num real | Txt string | Missing

type_synonym column = "cell list"
type_synonym table = "(string \<times> column) list"

text \<open>
  Python exceptions that the functions raise themselves or receive from pandas and
  scikit-learn. \<^verbatim>\<open>ValueError\<close> is what the specification calls a ConfigurationError.
\<close>

datatype py_error =
    ValueError string
  | KeyError string
  | TypeError string
  | AttributeError string
  | EmptyDataError
  | ParserError
  | OtherError string

definition bind_err :: "py_error + 'a \<Rightarrow> ('a \<Rightarrow> py_error + 'b) \<Rightarrow> py_error + 'b" where
  "bind_err m f = (case m of Inl e \<Rightarrow> Inl e | Inr x \<Rightarrow> f x)"

subsection \<open>The pandas operations used by the cleaning functions\<close>

text \<open>\<^verbatim>\<open>df[column]\<close>: the column of that name, KeyError when there is none.\<close>

definition getcol :: "table \<Rightarrow> string \<Rightarrow> py_error + column" where
  "getcol df c = (case map_of df c of None \<Rightarrow> Inl (KeyError c) | Some col \<Rightarrow> Inr col)"

text \<open>\<^verbatim>\<open>df[column] = values\<close>: replaces the column, or appends a new one.\<close>

definition setcol :: "table \<Rightarrow> string \<Rightarrow> column \<Rightarrow> table" where
  "setcol df c col =
     (if c \<in> set (map fst df)
      then map (\<lambda>(n, old). if n = c then (n, col) else (n, old)) df
      else df @ [(c, col)])"

text \<open>\<^verbatim>\<open>df[columns]\<close> for a list of names: the named columns in the order asked for.\<close>

fun select_columns :: "table \<Rightarrow> string list \<Rightarrow> py_error + column list" where
  "select_columns df [] = Inr []"
| "select_columns df (c # cs) =
     bind_err (getcol df c) (\<lambda>col. bind_err (select_columns df cs) (\<lambda>rest. Inr (col # rest)))"

text \<open>
  \<^verbatim>\<open>df[columns] = array\<close>: the i-th column of the array goes to the i-th name. An array
  with another number of columns than names is refused by pandas with a ValueError.
\<close>

fun assign_each :: "table \<Rightarrow> string list \<Rightarrow> column list \<Rightarrow> table" where
  "assign_each df (c # cs) (col # cols) = assign_each (setcol df c col) cs cols"
| "assign_each df _ _ = df"

definition assign_columns :: "table \<Rightarrow> string list \<Rightarrow> column list \<Rightarrow> py_error + table" where
  "assign_columns df cs cols =
     (if length cols \<noteq> length cs then Inl (ValueError ''Columns must be same length as key'')
      else Inr (assign_each df cs cols))"

text \<open>Boolean indexing \<^verbatim>\<open>df[mask]\<close>: the rows whose flag is true, in their order.\<close>

definition keep_rows :: "bool list \<Rightarrow> table \<Rightarrow> table" where
  "keep_rows flags df = map (\<lambda>(n, col). (n, map fst (filter snd (zip col flags)))) df"

definition nrows :: "table \<Rightarrow> nat" where
  "nrows df = (case df of [] \<Rightarrow> 0 | (n, col) # _ \<Rightarrow> length col)"

text \<open>
  The dtype of a column is read off its cells: a column is numeric when every cell is a
  number or missing (pandas float64), otherwise it is an object column.
\<close>

fun is_text :: "cell \<Rightarrow> bool" where
  "is_text (Txt s) = True"
| "is_text _ = False"

definition numeric_col :: "column \<Rightarrow> bool" where
  "numeric_col col = (\<not> list_ex is_text col)"

text \<open>The non-missing numbers of a column, in row order.\<close>

fun numbers :: "column \<Rightarrow> real list" where
  "numbers [] = []"
| "numbers (Num v # cs) = v # numbers cs"
| "numbers (_ # cs) = numbers cs"

fun texts :: "column \<Rightarrow> string list" where
  "texts [] = []"
| "texts (Txt s # cs) = s # texts cs"
| "texts (_ # cs) = texts cs"

text \<open>\<^verbatim>\<open>df.columns[df.isnull().any()].tolist()\<close>: the columns with a missing cell.\<close>

definition missing_columns :: "table \<Rightarrow> string list" where
  "missing_columns df = map fst (filter (\<lambda>(n, col). Missing \<in> set col) df)"

text \<open>\<^verbatim>\<open>fillna(value)\<close> on one column.\<close>

definition fillna :: "cell \<Rightarrow> column \<Rightarrow> column" where
  "fillna v col = map (\<lambda>c. if c = Missing then v else c) col"

text \<open>
  \<^verbatim>\<open>df.dropna(subset=columns)\<close>: KeyError for an unknown column, otherwise the rows with
  no missing cell in any of the columns.
\<close>

fun notna_mask :: "column list \<Rightarrow> nat \<Rightarrow> bool list" where
  "notna_mask [] n = replicate n True"
| "notna_mask (col # cols) n = map2 (\<lambda>c b. c \<noteq> Missing \<and> b) col (notna_mask cols n)"

definition dropna :: "table \<Rightarrow> string list \<Rightarrow> py_error + table" where
  "dropna df names =
     bind_err (select_columns df names) (\<lambda>cols. Inr (keep_rows (notna_mask cols (nrows df)) df))"

section \<open>Missing values\<close>

subsection \<open>Column statistics\<close>

definition mean :: "real list \<Rightarrow> real" where
  "mean xs = sum_list xs / real (length xs)"

definition median :: "real list \<Rightarrow> real" where
  "median xs =
     (let s = sort xs; n = length s
      in if odd n then s ! (n div 2) else (s ! (n div 2 - 1) + s ! (n div 2)) / 2)"

text \<open>The most frequent value, the smallest one among several.\<close>

definition mode_of :: "('a::linorder) list \<Rightarrow> 'a" where
  "mode_of xs = Min {x \<in> set xs. \<forall>y \<in> set xs. count_list xs y \<le> count_list xs x}"

subsection \<open>scikit-learn's SimpleImputer\<close>

text \<open>
  \<^verbatim>\<open>SimpleImputer(strategy=s).fit_transform(X)\<close> on the selected columns. The strategies
  that scikit-learn knows are the four below; any other name is refused when the
  parameters are validated (InvalidParameterError, a ValueError). The mean and the median
  need numeric data, and an input without rows is refused. A column without any observed
  value has no statistic and is left out of the result, except under \<^verbatim>\<open>constant\<close>, whose
  default fill value is 0 for numbers and the text \<^verbatim>\<open>missing_value\<close> otherwise.
\<close>

definition sklearn_strategies :: "string list" where
  "sklearn_strategies = [''mean'', ''median'', ''most_frequent'', ''constant'']"

definition imputer_statistic :: "string \<Rightarrow> column \<Rightarrow> cell option" where
  "imputer_statistic strategy col =
     (if strategy = ''constant''
      then Some (if numeric_col col then Num 0 else Txt ''missing_value'')
      else if numbers col = [] \<and> texts col = [] then None
      else if strategy = ''mean'' then Some (Num (mean (numbers col)))
      else if strategy = ''median'' then Some (Num (median (numbers col)))
      else if numeric_col col then Some (Num (mode_of (numbers col)))
      else Some (Txt (mode_of (texts col))))"

definition SimpleImputer_fit_transform :: "string \<Rightarrow> column list \<Rightarrow> py_error + column list" where
  "SimpleImputer_fit_transform strategy X =
     (if strategy \<notin> set sklearn_strategies
      then Inl (ValueError ''The 'strategy' parameter of SimpleImputer is invalid'')
      else if X = [] \<or> list_ex (\<lambda>col. col = []) X
      then Inl (ValueError ''Found array with 0 sample(s)'')
      else if strategy \<in> set [''mean'', ''median''] \<and> \<not> list_all numeric_col X
      then Inl (ValueError ''Cannot use this strategy with non-numeric data'')
      else Inr (concat (map (\<lambda>col. case imputer_statistic strategy col of
                                      None \<Rightarrow> [] | Some v \<Rightarrow> [fillna v col]) X)))"

subsection \<open>handle_missing_values\<close>

text \<open>
  \<^verbatim>\<open>handle_missing_values(df, strategy='mean', columns=None, fill_value=None)\<close>.
  The selector \<open>None\<close> stands for the columns with a missing cell; an empty selection
  returns the table before the strategy is looked at.
\<close>

definition handle_missing_values ::
  "table \<Rightarrow> string \<Rightarrow> string list option \<Rightarrow> cell option \<Rightarrow> py_error + table" where
  "handle_missing_values df strategy columns fill_value =
     (let columns = (case columns of None \<Rightarrow> missing_columns df | Some cs \<Rightarrow> cs)
      in if columns = [] then Inr df
         else if strategy = ''drop'' then dropna df columns
         else if strategy = ''constant'' then
           (case fill_value of
              None \<Rightarrow> Inl (ValueError ''Must provide a fill_value if strategy is 'constant'.'')
            | Some v \<Rightarrow>
                bind_err (select_columns df columns)
                  (\<lambda>sub. assign_columns df columns (map (fillna v) sub)))
         else if strategy \<in> set [''mean'', ''median'', ''mode''] then
           bind_err (select_columns df columns)
             (\<lambda>sub. bind_err (SimpleImputer_fit_transform strategy sub)
               (\<lambda>arr. assign_columns df columns arr))
         else Inl (ValueError
           ''Invalid strategy. Choose 'mean', 'median', 'mode', 'constant', or 'drop'.''))"

section \<open>Outliers\<close>

text \<open>
  \<^verbatim>\<open>Series.quantile(q)\<close> with pandas' default linear interpolation, on the non-missing
  numbers: position \<open>(n - 1) * q\<close> in the sorted values, interpolated between its two
  neighbours. Without values the quantile is NaN, here \<open>None\<close>.
\<close>

definition quantile :: "real list \<Rightarrow> real \<Rightarrow> real option" where
  "quantile xs q =
     (if xs = [] then None
      else let s = sort xs;
               h = real (length s - 1) * q;
               lo = nat \<lfloor>h\<rfloor>;
               hi = nat \<lceil>h\<rceil>
           in Some (s ! lo + (h - real lo) * (s ! hi - s ! lo)))"

text \<open>
  Lines 51 to 55: Q1, Q3, IQR and the two bounds of a column. A quantile of an object
  column is a TypeError in pandas. NaN quartiles give NaN bounds, here \<open>None\<close>.
\<close>

record iqr =
  Q1 :: real
  Q3 :: real
  IQR :: real
  lower_bound :: real
  upper_bound :: real

definition iqr_bounds :: "table \<Rightarrow> string \<Rightarrow> real \<Rightarrow> py_error + iqr option" where
  "iqr_bounds df column factor =
     bind_err (getcol df column) (\<lambda>col.
       if \<not> numeric_col col then Inl (TypeError ''cannot compute a quantile of an object column'')
       else Inr (case (quantile (numbers col) (1/4), quantile (numbers col) (3/4)) of
                   (Some q1, Some q3) \<Rightarrow>
                     Some \<lparr>Q1 = q1, Q3 = q3, IQR = q3 - q1,
                           lower_bound = q1 - factor * (q3 - q1),
                           upper_bound = q3 + factor * (q3 - q1)\<rparr>
                 | _ \<Rightarrow> None))"

text \<open>
  Line 56: the comparison of a cell with the bounds. A comparison with NaN is false, for
  a missing cell as for NaN bounds.
\<close>

fun within_bounds :: "iqr option \<Rightarrow> cell \<Rightarrow> bool" where
  "within_bounds (Some b) (Num v) = (lower_bound b \<le> v \<and> v \<le> upper_bound b)"
| "within_bounds _ _ = False"

definition remove_outliers_iqr :: "table \<Rightarrow> string \<Rightarrow> real \<Rightarrow> py_error + table" where
  "remove_outliers_iqr df column factor =
     bind_err (iqr_bounds df column factor) (\<lambda>b.
       bind_err (getcol df column) (\<lambda>col.
         Inr (keep_rows (map (within_bounds b) col) df)))"

section \<open>Normalisation\<close>

text \<open>
  scikit-learn's two scalers, \<^verbatim>\<open>fit_transform\<close> on the selected columns. Both refuse
  text and an input without rows with a ValueError, ignore missing cells when fitting
  and leave them missing. StandardScaler uses the population variance (divisor \<open>n\<close>);
  a zero scale or range is replaced by 1.
\<close>

datatype scaler = StandardScaler | MinMaxScaler

definition variance :: "real list \<Rightarrow> real" where
  "variance xs = sum_list (map (\<lambda>x. (x - mean xs)\<^sup>2) xs) / real (length xs)"

definition map_numbers :: "(real \<Rightarrow> real) \<Rightarrow> column \<Rightarrow> column" where
  "map_numbers f col = map (\<lambda>c. case c of Num v \<Rightarrow> Num (f v) | _ \<Rightarrow> c) col"

definition standard_scale :: "column \<Rightarrow> column" where
  "standard_scale col =
     (let xs = numbers col
      in if xs = [] then col
         else let m = mean xs;
                  sd = sqrt (variance xs);
                  scale = (if sd = 0 then 1 else sd)
              in map_numbers (\<lambda>x. (x - m) / scale) col)"

definition minmax_scale :: "column \<Rightarrow> column" where
  "minmax_scale col =
     (let xs = numbers col
      in if xs = [] then col
         else let data_min = Min (set xs);
                  data_max = Max (set xs);
                  data_range = data_max - data_min;
                  scale = 1 / (if data_range = 0 then 1 else data_range);
                  min_shift = 0 - data_min * scale
              in map_numbers (\<lambda>x. x * scale + min_shift) col)"

definition scaler_fit_transform :: "scaler \<Rightarrow> column list \<Rightarrow> py_error + column list" where
  "scaler_fit_transform sc X =
     (if \<not> list_all numeric_col X then Inl (ValueError ''could not convert string to float'')
      else if X = [] \<or> list_ex (\<lambda>col. col = []) X
      then Inl (ValueError ''Found array with 0 sample(s)'')
      else Inr (map (case sc of StandardScaler \<Rightarrow> standard_scale
                               | MinMaxScaler \<Rightarrow> minmax_scale) X))"

text \<open>
  \<^verbatim>\<open>normalize_data(df, columns, method='standard')\<close>. An empty list (or \<open>None\<close>, which
  Python's \<^verbatim>\<open>not columns\<close> treats alike) returns the table; the method is checked before
  the columns are read.
\<close>

definition normalize_data :: "table \<Rightarrow> string list \<Rightarrow> string \<Rightarrow> py_error + table" where
  "normalize_data df columns method =
     (if columns = [] then Inr df
      else bind_err
             (if method = ''standard'' then Inr StandardScaler
              else if method = ''minmax'' then Inr MinMaxScaler
              else Inl (ValueError
                ''Invalid normalization method. Choose 'standard' or 'minmax'.''))
             (\<lambda>sc. bind_err (select_columns df columns)
               (\<lambda>sub. bind_err (scaler_fit_transform sc sub)
                 (\<lambda>arr. assign_columns df columns arr))))"

section \<open>Type conversion\<close>

text \<open>
  \<^verbatim>\<open>convert_column_type(df, column, dtype)\<close>. The cast \<^verbatim>\<open>Series.astype\<close> belongs to
  pandas and is a parameter here: it returns the converted column or the exception it
  raised. The \<^verbatim>\<open>try\<close> covers the read of the column, the cast and the assignment;
  \<^verbatim>\<open>except Exception\<close> catches every error of the model, prints a message (not modelled)
  and falls through to \<^verbatim>\<open>return df\<close>.
\<close>

definition convert_column_type ::
  "('d \<Rightarrow> column \<Rightarrow> py_error + column) \<Rightarrow> table \<Rightarrow> string \<Rightarrow> 'd \<Rightarrow> py_error + table" where
  "convert_column_type astype df column dtype =
     (case bind_err (getcol df column)
             (\<lambda>col. bind_err (astype dtype col) (\<lambda>new. Inr (setcol df column new))) of
        Inl e \<Rightarrow> Inr df
      | Inr df' \<Rightarrow> Inr df')"

section \<open>Duplicates\<close>

text \<open>
  \<^verbatim>\<open>df.drop_duplicates(subset, keep)\<close>: rows are compared on the subset columns (all
  columns for \<open>None\<close>, no comparison at all for an empty list), missing cells counting as
  equal. \<^verbatim>\<open>keep\<close> is \<^verbatim>\<open>'first'\<close>, \<^verbatim>\<open>'last'\<close> or \<^verbatim>\<open>False\<close> (here \<open>None\<close>); another
  text is a ValueError, an unknown column a KeyError.
\<close>

definition row_keys :: "column list \<Rightarrow> nat \<Rightarrow> cell list list" where
  "row_keys cols n = map (\<lambda>i. map (\<lambda>col. col ! i) cols) [0..<n]"

fun first_seen :: "'a list \<Rightarrow> 'a list \<Rightarrow> bool list" where
  "first_seen seen [] = []"
| "first_seen seen (k # ks) = (k \<notin> set seen) # first_seen (k # seen) ks"

definition drop_duplicates :: "table \<Rightarrow> string list option \<Rightarrow> string option \<Rightarrow> py_error + table" where
  "drop_duplicates df names keep =
     (if keep \<notin> {Some ''first'', Some ''last'', None}
      then Inl (ValueError ''keep must be either 'first', 'last' or False'')
      else bind_err (select_columns df (case names of None \<Rightarrow> map fst df | Some cs \<Rightarrow> cs))
        (\<lambda>cols. let keys = row_keys cols (nrows df)
                in Inr (if names = Some [] then df
                        else if keep = Some ''first'' then keep_rows (first_seen [] keys) df
                        else if keep = Some ''last''
                        then keep_rows (rev (first_seen [] (rev keys))) df
                        else keep_rows (map (\<lambda>k. count_list keys k = 1) keys) df)))"

definition remove_duplicates :: "table \<Rightarrow> string list option \<Rightarrow> string option \<Rightarrow> py_error + table" where
  "remove_duplicates df names keep = drop_duplicates df names keep"

section \<open>Text cleaning\<close>

text \<open>
  Python's string methods on the ASCII range: \<^verbatim>\<open>str.lower\<close>, \<^verbatim>\<open>str.strip\<close> and the
  substitution of \<^verbatim>\<open>[^a-zA-Z0-9\s]\<close> by the empty text. White space is what
  \<^verbatim>\<open>str.isspace\<close> and \<^verbatim>\<open>\s\<close> accept below 128: the codes 9 to 13 and 28 to 32.
\<close>

definition is_space :: "char \<Rightarrow> bool" where
  "is_space c = (let n = (of_char c :: nat) in (9 \<le> n \<and> n \<le> 13) \<or> (28 \<le> n \<and> n \<le> 32))"

definition is_alnum :: "char \<Rightarrow> bool" where
  "is_alnum c =
     (c \<in> set ''abcdefghijklmnopqrstuvwxyzABCDEFGHIJKLMNOPQRSTUVWXYZ0123456789'')"

definition lower_char :: "char \<Rightarrow> char" where
  "lower_char c =
     (case map_of (zip ''ABCDEFGHIJKLMNOPQRSTUVWXYZ'' ''abcdefghijklmnopqrstuvwxyz'') c of
        None \<Rightarrow> c | Some l \<Rightarrow> l)"

definition py_lower :: "string \<Rightarrow> string" where
  "py_lower s = map lower_char s"

definition py_strip :: "string \<Rightarrow> string" where
  "py_strip s = rev (dropWhile is_space (rev (dropWhile is_space s)))"

definition remove_special_chars :: "string \<Rightarrow> string" where
  "remove_special_chars s = filter (\<lambda>c. is_alnum c \<or> is_space c) s"

text \<open>
  A method of the \<^verbatim>\<open>.str\<close> accessor on a column. pandas refuses the accessor on a
  column that holds values but no text (AttributeError); a cell that is not a text
  becomes missing.
\<close>

definition str_method :: "(string \<Rightarrow> string) \<Rightarrow> column \<Rightarrow> py_error + column" where
  "str_method f col =
     (if col \<noteq> [] \<and> \<not> list_ex is_text col
      then Inl (AttributeError ''Can only use .str accessor with string values!'')
      else Inr (map (\<lambda>c. case c of Txt s \<Rightarrow> Txt (f s) | _ \<Rightarrow> Missing) col))"

text \<open>One statement \<^verbatim>\<open>df[column] = df[column].str.f()\<close>.\<close>

definition str_assign :: "(string \<Rightarrow> string) \<Rightarrow> string \<Rightarrow> table \<Rightarrow> py_error + table" where
  "str_assign f column df =
     bind_err (getcol df column) (\<lambda>col.
       bind_err (str_method f col) (\<lambda>new. Inr (setcol df column new)))"

text \<open>
  \<^verbatim>\<open>clean_text_column(df, column, lower=True, remove_space=True, remove_special=True)\<close>
  is three guarded assignments, executed from top to bottom: lines 117-118, 119-120 and
  121-122. \<open>run_statements\<close> executes a list of statements and also returns the table
  as it stands after each assignment, up to the first exception.
\<close>

definition clean_text_statements ::
  "string \<Rightarrow> bool \<Rightarrow> bool \<Rightarrow> bool \<Rightarrow> (table \<Rightarrow> py_error + table) list" where
  "clean_text_statements column lower remove_space remove_special =
     (if lower then [str_assign py_lower column] else []) @
     (if remove_space then [str_assign py_strip column] else []) @
     (if remove_special then [str_assign remove_special_chars column] else [])"

fun run_statements ::
  "(table \<Rightarrow> py_error + table) list \<Rightarrow> table \<Rightarrow> table list \<times> (py_error + table)" where
  "run_statements [] df = ([], Inr df)"
| "run_statements (s # ss) df =
     (case s df of
        Inl e \<Rightarrow> ([], Inl e)
      | Inr df' \<Rightarrow> (case run_statements ss df' of (states, r) \<Rightarrow> (df' # states, r)))"

definition clean_text_trace :: "table \<Rightarrow> string \<Rightarrow> bool \<Rightarrow> bool \<Rightarrow> bool \<Rightarrow> table list" where
  "clean_text_trace df column lower remove_space remove_special =
     fst (run_statements (clean_text_statements column lower remove_space remove_special) df)"

definition clean_text_column ::
  "table \<Rightarrow> string \<Rightarrow> bool \<Rightarrow> bool \<Rightarrow> bool \<Rightarrow> py_error + table" where
  "clean_text_column df column lower remove_space remove_special =
     snd (run_statements (clean_text_statements column lower remove_space remove_special) df)"

section \<open>Import\<close>

text \<open>
  \<^verbatim>\<open>import_data(filepath, file_type=None)\<close> of \<^verbatim>\<open>package/io.py\<close>. The file system, the
  four pandas readers and the pandas cast are the surroundings of the program; a reader
  returns the table or the exception it raised. Every exception of a reader is caught
  and answered with \<open>None\<close> (the printed messages are not modelled).
\<close>

record 'd surroundings =
  path_exists :: "string \<Rightarrow> bool"
  read_csv :: "string \<Rightarrow> py_error + table"
  read_json :: "string \<Rightarrow> py_error + table"
  read_parquet :: "string \<Rightarrow> py_error + table"
  read_excel :: "string \<Rightarrow> py_error + table"
  astype :: "'d \<Rightarrow> column \<Rightarrow> py_error + column"

text \<open>\<^verbatim>\<open>filepath.split('.')[-1]\<close>: what follows the last dot, or the whole text.\<close>

definition last_segment :: "string \<Rightarrow> string" where
  "last_segment s = rev (takeWhile (\<lambda>c. c \<noteq> CHR ''.'') (rev s))"

definition caught :: "py_error + table \<Rightarrow> table option" where
  "caught r = (case r of Inl e \<Rightarrow> None | Inr df \<Rightarrow> Some df)"

definition import_data :: "'d surroundings \<Rightarrow> string \<Rightarrow> string option \<Rightarrow> table option" where
  "import_data env filepath file_type =
     (if \<not> path_exists env filepath then None
      else let file_type = (case file_type of
                              None \<Rightarrow> py_lower (last_segment filepath) | Some t \<Rightarrow> t)
           in if file_type = ''csv'' then caught (read_csv env filepath)
              else if file_type = ''json'' then caught (read_json env filepath)
              else if file_type = ''parquet'' then caught (read_parquet env filepath)
              else if file_type \<in> set [''xls'', ''xlsx''] then caught (read_excel env filepath)
              else None)"

section \<open>The pipeline\<close>

text \<open>
  The keyword arguments of \<^verbatim>\<open>clean_data\<close> after \<^verbatim>\<open>filepath\<close>, with Python's \<open>None\<close>
  as \<open>None\<close>. \<^verbatim>\<open>convert_type\<close> is a dictionary, kept as the list of its items in
  insertion order; \<^verbatim>\<open>dup_keep=False\<close> is \<open>None\<close>.
\<close>

record 'd config =
  strategy :: string
  outlier_cols :: "string list option"
  outlier_factor :: real
  normalize_cols :: "string list option"
  normalize_method :: string
  convert_type :: "(string \<times> 'd) list option"
  dup_subset :: "string list option"
  dup_keep :: "string option"
  text_cols :: "string list option"
  text_lower :: bool
  text_space :: bool
  text_special :: bool

text \<open>Python's truth value of an optional list: \<open>None\<close> and the empty list are false.\<close>

definition truthy :: "'a list option \<Rightarrow> bool" where
  "truthy xs = (case xs of None \<Rightarrow> False | Some l \<Rightarrow> l \<noteq> [])"

definition items :: "'a list option \<Rightarrow> 'a list" where
  "items xs = (case xs of None \<Rightarrow> [] | Some l \<Rightarrow> l)"

text \<open>
  The run of the pipeline keeps the calls it has made to the helper functions, in call
  order, beside the table or the exception that ended it. A call is made only while no
  exception is pending.
\<close>

datatype call =
    Call_import_data string
  | Call_handle_missing_values
  | Call_remove_outliers_iqr string
  | Call_normalize_data
  | Call_convert_column_type string
  | Call_remove_duplicates
  | Call_clean_text_column string

type_synonym run = "call list \<times> (py_error + table)"

definition invoke :: "call \<Rightarrow> (table \<Rightarrow> py_error + table) \<Rightarrow> run \<Rightarrow> run" where
  "invoke c f st =
     (case st of
        (calls, Inl e) \<Rightarrow> (calls, Inl e)
      | (calls, Inr df) \<Rightarrow> (calls @ [c], f df))"

text \<open>The three \<^verbatim>\<open>for\<close> loops of \<^verbatim>\<open>clean_data\<close>, lines 158-159, 165-166 and 171-172.\<close>

definition outlier_loop :: "string list \<Rightarrow> real \<Rightarrow> run \<Rightarrow> run" where
  "outlier_loop cols factor st =
     foldl (\<lambda>st col. invoke (Call_remove_outliers_iqr col)
                        (\<lambda>df. remove_outliers_iqr df col factor) st) st cols"

definition convert_loop ::
  "('d \<Rightarrow> column \<Rightarrow> py_error + column) \<Rightarrow> (string \<times> 'd) list \<Rightarrow> run \<Rightarrow> run" where
  "convert_loop cast entries st =
     foldl (\<lambda>st (col, ty). invoke (Call_convert_column_type col)
                             (\<lambda>df. convert_column_type cast df col ty) st) st entries"

definition text_loop :: "string list \<Rightarrow> bool \<Rightarrow> bool \<Rightarrow> bool \<Rightarrow> run \<Rightarrow> run" where
  "text_loop cols lower remove_space remove_special st =
     foldl (\<lambda>st col. invoke (Call_clean_text_column col)
                        (\<lambda>df. clean_text_column df col lower remove_space remove_special) st)
       st cols"

text \<open>
  \<^verbatim>\<open>clean_data\<close>, lines 151 to 174. The result is \<open>Inr None\<close> for Python's
  \<^verbatim>\<open>return None\<close>, \<open>Inr (Some df)\<close> for the cleaned table and \<open>Inl e\<close> for an
  exception that leaves the function.
\<close>

definition clean_data ::
  "'d surroundings \<Rightarrow> string \<Rightarrow> 'd config \<Rightarrow> call list \<times> (py_error + table option)" where
  "clean_data env filepath cfg =
     (case import_data env filepath None of
        None \<Rightarrow> ([Call_import_data filepath], Inr None)
      | Some df \<Rightarrow>
          let st = ([Call_import_data filepath], Inr df);
              st = invoke Call_handle_missing_values
                     (\<lambda>df. handle_missing_values df (strategy cfg) None None) st;
              st = (if truthy (outlier_cols cfg)
                    then outlier_loop (items (outlier_cols cfg)) (outlier_factor cfg) st
                    else st);
              st = (if truthy (normalize_cols cfg)
                    then invoke Call_normalize_data
                           (\<lambda>df. normalize_data df (items (normalize_cols cfg))
                                   (normalize_method cfg)) st
                    else st);
              st = (if truthy (convert_type cfg)
                    then convert_loop (astype env) (items (convert_type cfg)) st
                    else st);
              st = invoke Call_remove_duplicates
                     (\<lambda>df. remove_duplicates df (dup_subset cfg) (dup_keep cfg)) st;
              st = (if truthy (text_cols cfg)
                    then text_loop (items (text_cols cfg)) (text_lower cfg) (text_space cfg)
                           (text_special cfg) st
                    else st)
          in (fst st, map_sum id Some (snd st)))"

text \<open>
  The steps of \<^verbatim>\<open>clean_data\<close> that follow the outlier loop, lines 161 to 172, taken
  on their own: normalisation, type conversion, duplicate removal and text cleaning.
\<close>

definition later_steps :: "'d surroundings \<Rightarrow> 'd config \<Rightarrow> run \<Rightarrow> run" where
  "later_steps env cfg st =
     (let st = (if truthy (normalize_cols cfg)
                then invoke Call_normalize_data
                       (\<lambda>df. normalize_data df (items (normalize_cols cfg))
                               (normalize_method cfg)) st
                else st);
          st = (if truthy (convert_type cfg)
                then convert_loop (astype env) (items (convert_type cfg)) st
                else st);
          st = invoke Call_remove_duplicates
                 (\<lambda>df. remove_duplicates df (dup_subset cfg) (dup_keep cfg)) st;
          st = (if truthy (text_cols cfg)
                then text_loop (items (text_cols cfg)) (text_lower cfg) (text_space cfg)
                       (text_special cfg) st
                else st)
      in st)"

text \<open>Line 174, \<^verbatim>\<open>return df\<close>: the calls made, and the table or the exception.\<close>

definition returned :: "run \<Rightarrow> call list \<times> (py_error + table option)" where
  "returned st = (fst st, map_sum id Some (snd st))"

text \<open>The defaults of the signature of \<^verbatim>\<open>clean_data\<close>.\<close>

definition default_config :: "'d config" where
  "default_config =
     \<lparr>strategy = ''mean'', outlier_cols = None, outlier_factor = 3/2,
      normalize_cols = None, normalize_method = ''standard'', convert_type = None,
      dup_subset = None, dup_keep = Some ''first'', text_cols = None,
      text_lower = True, text_space = True, text_special = True\<rparr>"

section \<open>Surroundings and tables used in the examples\<close>

text \<open>A file system without any file.\<close>

definition no_files :: "unit surroundings" where
  "no_files =
     \<lparr>path_exists = (\<lambda>p. False), read_csv = (\<lambda>p. Inl EmptyDataError),
      read_json = (\<lambda>p. Inl EmptyDataError), read_parquet = (\<lambda>p. Inl EmptyDataError),
      read_excel = (\<lambda>p. Inl EmptyDataError), astype = (\<lambda>d col. Inr col)\<rparr>"

text \<open>A file system with the one file \<^verbatim>\<open>data.csv\<close>, which holds the given table.\<close>

definition one_csv :: "table \<Rightarrow> unit surroundings" where
  "one_csv df =
     \<lparr>path_exists = (\<lambda>p. p = ''data.csv''), read_csv = (\<lambda>p. Inr df),
      read_json = (\<lambda>p. Inl ParserError), read_parquet = (\<lambda>p. Inl ParserError),
      read_excel = (\<lambda>p. Inl ParserError), astype = (\<lambda>d col. Inr col)\<rparr>"

text \<open>The tables of the examples.\<close>

definition hello :: table where
  "hello = [(''text'', [Txt '' He!!o ''])]"

definition five :: table where
  "five = [(''id'', [Txt ''a'', Txt ''b'', Txt ''c'', Txt ''d'', Txt ''e'']),
           (''x'', [Num 1, Num 2, Num 3, Num 4, Num 100])]"

definition nine :: table where
  "nine = [(''x'', [Num 100, Num 2, Num (-1), Num 3, Num 7, Num 4, Num 2, Num 3, Num 4])]"

definition gaps :: table where
  "gaps = [(''a'', [Num 1, Missing]), (''b'', [Txt ''x'', Txt ''y'']),
           (''c'', [Missing, Missing])]"

definition mixed :: table where
  "mixed = [(''a'', [Txt ''x'', Num 1]), (''b'', [Num (3/2), Num 2])]"

definition two_cols :: table where
  "two_cols = [(''a'', [Num 1, Num 2, Num 3, Num 4, Num 100]),
               (''b'', [Num 10, Num 11, Num 12, Num 20, Num 100])]"

definition readings :: table where
  "readings = [(''x'', [Num 0, Num 5, Num 10]),
               (''t'', [Txt '' He!!o '', Txt ''A'', Txt ''b''])]"

text \<open>
  Configurations of the examples: the defaults with the outlier columns a and b, the same
  with strategy \<^verbatim>\<open>'constant'\<close>, and the defaults with an outlier column that no table
  of the examples has.
\<close>

definition ab_config :: "unit config" where
  "ab_config = default_config\<lparr>outlier_cols := Some [''a'', ''b'']\<rparr>"

definition constant_ab_config :: "unit config" where
  "constant_ab_config = ab_config\<lparr>strategy := ''constant''\<rparr>"

definition zb_config :: "unit config" where
  "zb_config = default_config\<lparr>outlier_cols := Some [''zz'', ''b'']\<rparr>"

text \<open>The table \<open>two_cols\<close> without its fifth row.\<close>

definition two_cols_a :: table where
  "two_cols_a = [(''a'', [Num 1, Num 2, Num 3, Num 4]),
                 (''b'', [Num 10, Num 11, Num 12, Num 20])]"

text \<open>
  An instance of the cast for the examples, with the target type given by name: the
  cast to \<^verbatim>\<open>int\<close> truncates numbers and refuses a column with a text or a missing
  cell; no other target is known to it.
\<close>

definition cast_int :: "string \<Rightarrow> column \<Rightarrow> py_error + column" where
  "cast_int dtype col =
     (if dtype \<noteq> ''int'' then Inl (TypeError ''data type not understood'')
      else if list_ex (\<lambda>c. case c of Num v \<Rightarrow> False | _ \<Rightarrow> True) col
      then Inl (ValueError ''cannot convert to integer'')
      else Inr (map_numbers (\<lambda>v. of_int (if 0 \<le> v then \<lfloor>v\<rfloor> else \<lceil>v\<rceil>)) col))"

text \<open>
  The table in which the columns named in \<open>S\<close> have been replaced by what \<open>g\<close> gives
  for their name: the shape of a table after the assignment \<^verbatim>\<open>df[columns] = ...\<close>.
\<close>

definition replaced :: "string set \<Rightarrow> (string \<Rightarrow> column) \<Rightarrow> table \<Rightarrow> table" where
  "replaced S g df = map (\<lambda>(n, col). (n, if n \<in> S then g n else col)) df"

text \<open>
  The frame of an operation that may change the columns named in \<open>S\<close> only: the second
  table has the same column names in the same order, every column keeps its number of
  rows, and a column outside \<open>S\<close> keeps its cells, row by row.
\<close>

definition same_outside :: "string set \<Rightarrow> table \<Rightarrow> table \<Rightarrow> bool" where
  "same_outside S df df' =
     list_all2 (\<lambda>(n, col) (n', col').
                  n' = n \<and> length col' = length col \<and> (n \<notin> S \<longrightarrow> col' = col))
       df df'"

section \<open>Basic facts\<close>

lemma bind_err_Inl [simp]: "bind_err (Inl e) f = Inl e"
  by (simp add: bind_err_def)

lemma bind_err_Inr [simp]: "bind_err (Inr x) f = f x"
  by (simp add: bind_err_def)

lemma invoke_Inl [simp]: "invoke c f (calls, Inl e) = (calls, Inl e)"
  by (simp add: invoke_def)

lemma invoke_Inr [simp]: "invoke c f (calls, Inr df) = (calls @ [c], f df)"
  by (simp add: invoke_def)

text \<open>A pending exception passes through the three loops.\<close>

lemma outlier_loop_Inl [simp]: "outlier_loop cols factor (calls, Inl e) = (calls, Inl e)"
  by (induction cols) (simp_all add: outlier_loop_def)

lemma convert_loop_Inl [simp]: "convert_loop cast entries (calls, Inl e) = (calls, Inl e)"
  by (induction entries) (auto simp: convert_loop_def)

lemma text_loop_Inl [simp]: "text_loop cols l s p (calls, Inl e) = (calls, Inl e)"
  by (induction cols) (simp_all add: text_loop_def)

lemma missing_columns_nonempty:
  "(n, col) \<in> set df \<Longrightarrow> Missing \<in> set col \<Longrightarrow> missing_columns df \<noteq> []"
  by (auto simp: missing_columns_def filter_empty_conv)

lemma constant_without_fill:
  "(case sel of None \<Rightarrow> missing_columns df | Some cs \<Rightarrow> cs) \<noteq> [] \<Longrightarrow>
   handle_missing_values df ''constant'' sel None =
     Inl (ValueError ''Must provide a fill_value if strategy is 'constant'.'')"
  by (simp add: handle_missing_values_def)

section \<open>Missing values: the strategies\<close>

text \<open>
  Claim C1. With strategy \<^verbatim>\<open>'mode'\<close> the missing entries of the selected columns should
  be filled with the mode of the column. The code hands the name \<^verbatim>\<open>'mode'\<close> to
  SimpleImputer, which knows the mode as \<^verbatim>\<open>'most_frequent'\<close> only: on the table with
  the column a = [1, NaN, 1] the call ends in a ValueError instead of the table
  a = [1, 1, 1].
\<close>

theorem handle_missing_values_mode_raises:
  "handle_missing_values [(''a'', [Num 1, Missing, Num 1])] ''mode'' (Some [''a'']) None =
     Inl (ValueError ''The 'strategy' parameter of SimpleImputer is invalid'')"
  by (simp add: handle_missing_values_def SimpleImputer_fit_transform_def
      sklearn_strategies_def getcol_def)

text \<open>
  The same happens for every table and every non-empty selection: no call with
  \<^verbatim>\<open>'mode'\<close> returns a table.
\<close>

lemma handle_missing_values_mode_never_returns:
  assumes "cs \<noteq> []"
  shows "\<exists>e. handle_missing_values df ''mode'' (Some cs) fv = Inl e"
proof (cases "select_columns df cs")
  case (Inl e)
  with assms show ?thesis by (simp add: handle_missing_values_def)
next
  case (Inr sub)
  have "\<exists>e. SimpleImputer_fit_transform ''mode'' sub = Inl e"
    by (simp add: SimpleImputer_fit_transform_def sklearn_strategies_def)
  then obtain e where "SimpleImputer_fit_transform ''mode'' sub = Inl e" ..
  with assms Inr show ?thesis by (simp add: handle_missing_values_def)
qed

text \<open>The mean, for comparison, is a strategy of SimpleImputer and fills the gap.\<close>

lemma handle_missing_values_mean_example:
  "handle_missing_values [(''a'', [Num 1, Missing, Num 3])] ''mean'' None None =
     Inr [(''a'', [Num 1, Num 2, Num 3])]"
  by (simp add: handle_missing_values_def SimpleImputer_fit_transform_def
      sklearn_strategies_def getcol_def missing_columns_def imputer_statistic_def mean_def
      numeric_col_def assign_columns_def setcol_def fillna_def)

section \<open>The pipeline: constant strategy, failed import\<close>

text \<open>
  Claim C2. When the imported table has a missing value, \<^verbatim>\<open>clean_data\<close> with strategy
  \<^verbatim>\<open>'constant'\<close> raises the ValueError of the missing fill value: the handler is called
  with the default selector and no fill value, and no later step is called.
\<close>

theorem clean_data_constant_raises:
  assumes "import_data env filepath None = Some df"
    and "(n, col) \<in> set df" and "Missing \<in> set col"
    and "strategy cfg = ''constant''"
  shows "clean_data env filepath cfg =
     ([Call_import_data filepath, Call_handle_missing_values],
      Inl (ValueError ''Must provide a fill_value if strategy is 'constant'.''))"
proof -
  have "missing_columns df \<noteq> []"
    using assms(2,3) by (rule missing_columns_nonempty)
  then have "handle_missing_values df ''constant'' None None =
     Inl (ValueError ''Must provide a fill_value if strategy is 'constant'.'')"
    by (simp add: constant_without_fill)
  then show ?thesis
    using assms(1,4) by (simp add: clean_data_def Let_def)
qed

theorem clean_data_constant_raises_witness:
  "import_data (one_csv [(''a'', [Num 1, Missing])]) ''data.csv'' None
     = Some [(''a'', [Num 1, Missing])] \<and>
   clean_data (one_csv [(''a'', [Num 1, Missing])]) ''data.csv''
       (default_config\<lparr>strategy := ''constant''\<rparr>) =
     ([Call_import_data ''data.csv'', Call_handle_missing_values],
      Inl (ValueError ''Must provide a fill_value if strategy is 'constant'.''))"
proof -
  have imp: "import_data (one_csv [(''a'', [Num 1, Missing])]) ''data.csv'' None
     = Some [(''a'', [Num 1, Missing])]"
    by (simp add: import_data_def one_csv_def last_segment_def py_lower_def lower_char_def
        caught_def)
  have mem: "(''a'', [Num 1, Missing]) \<in> set [(''a'', [Num 1, Missing])]"
    by simp
  have mis: "Missing \<in> set [Num 1, Missing]"
    by simp
  have st: "strategy (default_config\<lparr>strategy := ''constant''\<rparr> :: unit config) = ''constant''"
    by simp
  show ?thesis
    using imp clean_data_constant_raises [OF imp mem mis st] by simp
qed

text \<open>
  Claim C7. When the import fails, as it does for a path that does not exist,
  \<^verbatim>\<open>clean_data\<close> returns \<open>None\<close> whatever the configuration, and the call of
  \<^verbatim>\<open>import_data\<close> is the only call it has made.
\<close>

theorem clean_data_import_failure:
  "(\<not> path_exists env filepath \<longrightarrow> import_data env filepath None = None) \<and>
   (import_data env filepath None = None \<longrightarrow>
      clean_data env filepath cfg = ([Call_import_data filepath], Inr None))"
  by (simp add: import_data_def clean_data_def)

theorem clean_data_import_failure_witness:
  "\<not> path_exists no_files ''complete.csv'' \<and>
   import_data no_files ''complete.csv'' None = None \<and>
   clean_data no_files ''complete.csv'' (default_config\<lparr>strategy := ''bogus''\<rparr>)
     = ([Call_import_data ''complete.csv''], Inr None)"
  using clean_data_import_failure
    [of no_files "''complete.csv''" "default_config\<lparr>strategy := ''bogus''\<rparr>"]
  by (simp add: no_files_def)

section \<open>Reading and assigning columns\<close>

lemma replaced_empty [simp]: "replaced {} g df = df"
  by (induction df) (auto simp: replaced_def)

lemma names_replaced [simp]: "map fst (replaced S g df) = map fst df"
  by (induction df) (auto simp: replaced_def)

lemma setcol_replaced:
  assumes "c \<in> fst ` set df"
  shows "setcol (replaced S g df) c (g c) = replaced (insert c S) g df"
proof -
  from assms have "c \<in> set (map fst (replaced S g df))" by simp
  then have "setcol (replaced S g df) c (g c) =
      map (\<lambda>(n, old). if n = c then (n, g c) else (n, old)) (replaced S g df)"
    unfolding setcol_def by (rule if_P)
  also have "\<dots> = replaced (insert c S) g df"
    by (auto simp: replaced_def)
  finally show ?thesis .
qed

lemma assign_each_replaced:
  "set cs \<subseteq> fst ` set df \<Longrightarrow>
   assign_each (replaced S g df) cs (map g cs) = replaced (S \<union> set cs) g df"
proof (induction cs arbitrary: S)
  case Nil
  then show ?case by simp
next
  case (Cons c cs)
  then have "assign_each (replaced (insert c S) g df) cs (map g cs)
      = replaced (insert c S \<union> set cs) g df" by simp
  with Cons.prems show ?case by (simp add: setcol_replaced)
qed

lemma getcol_Inr: "getcol df c = Inr col \<Longrightarrow> map_of df c = Some col"
  by (simp add: getcol_def split: option.splits)

lemma select_columns_Inr:
  "select_columns df cs = Inr sub \<Longrightarrow>
   set cs \<subseteq> fst ` set df \<and> sub = map (\<lambda>c. the (map_of df c)) cs"
proof (induction cs arbitrary: sub)
  case Nil
  then show ?case by simp
next
  case (Cons c cs)
  from Cons.prems obtain col where c: "getcol df c = Inr col"
    by (cases "getcol df c") auto
  with Cons.prems obtain rest where r: "select_columns df cs = Inr rest"
    and s: "sub = col # rest"
    by (cases "select_columns df cs") auto
  from c have m: "map_of df c = Some col" by (rule getcol_Inr)
  then have "(c, col) \<in> set df" by (rule map_of_SomeD)
  then have "c \<in> fst ` set df" by force
  with Cons.IH [OF r] m s show ?case by simp
qed

lemma select_columns_total:
  "set cs \<subseteq> fst ` set df \<Longrightarrow> select_columns df cs = Inr (map (\<lambda>c. the (map_of df c)) cs)"
proof (induction cs)
  case Nil
  then show ?case by simp
next
  case (Cons c cs)
  then have "c \<in> fst ` set df" by simp
  then obtain col where "map_of df c = Some col"
    by (metis domD dom_map_of_conv_image_fst)
  with Cons show ?case by (simp add: getcol_def)
qed

lemma replaced_distinct:
  "distinct (map fst df) \<Longrightarrow>
   replaced S (\<lambda>n. f (the (map_of df n))) df =
     map (\<lambda>(n, col). (n, if n \<in> S then f col else col)) df"
  unfolding replaced_def
  by (rule map_cong) auto

lemma zip_filter_flags: "map fst (filter snd (zip xs (map P xs))) = filter P xs"
  by (induction xs) auto

lemma getcol_keep_rows:
  assumes "getcol df c = Inr col"
  shows "getcol (keep_rows (map P col) df) c = Inr (filter P col)"
proof -
  from assms have "map_of df c = Some col" by (rule getcol_Inr)
  then have "map_of (keep_rows (map P col) df) c
      = Some (map fst (filter snd (zip col (map P col))))"
    unfolding keep_rows_def by (simp add: map_of_map)
  then show ?thesis by (simp add: getcol_def zip_filter_flags)
qed

section \<open>Missing values: the constant strategy\<close>

lemma constant_with_fill:
  assumes "select_columns df cs = Inr sub" "cs \<noteq> []"
  shows "handle_missing_values df ''constant'' (Some cs) (Some v) =
     Inr (replaced (set cs) (\<lambda>n. fillna v (the (map_of df n))) df)"
proof -
  from select_columns_Inr [OF assms(1)]
  have sub: "set cs \<subseteq> fst ` set df" and eq: "sub = map (\<lambda>c. the (map_of df c)) cs"
    by simp_all
  have "assign_each (replaced {} (\<lambda>n. fillna v (the (map_of df n))) df) cs
          (map (\<lambda>n. fillna v (the (map_of df n))) cs)
        = replaced ({} \<union> set cs) (\<lambda>n. fillna v (the (map_of df n))) df"
    using sub by (rule assign_each_replaced)
  then show ?thesis
    using assms eq by (simp add: handle_missing_values_def assign_columns_def comp_def)
qed

text \<open>
  Claim C5, as stated: with strategy \<^verbatim>\<open>'constant'\<close> and no fill value the handler fails
  for every table and every selector. It does not when the selection is empty: for a
  table without missing values and the default selector the table comes back.
\<close>

theorem constant_without_fill_counterexample:
  "handle_missing_values [(''a'', [Num 1, Num 2])] ''constant'' None None
     = Inr [(''a'', [Num 1, Num 2])]"
  by (simp add: handle_missing_values_def missing_columns_def)

text \<open>
  Claim C5, amended. Let \<open>cs\<close> be the resolved selection (the given list, or the
  columns with a missing cell). If \<open>cs\<close> is not empty, the call without a fill value
  fails with the ValueError; if \<open>cs\<close> is empty, the table is returned unchanged, with or
  without a fill value; if \<open>cs\<close> is not empty, names columns of the table only and the
  column names are distinct, the call with a fill value returns the table in which
  exactly the missing cells of the selected columns hold the fill value.
\<close>

theorem handle_missing_values_constant:
  assumes "cs = (case sel of None \<Rightarrow> missing_columns df | Some l \<Rightarrow> l)"
  shows "(cs \<noteq> [] \<longrightarrow>
            handle_missing_values df ''constant'' sel None =
              Inl (ValueError ''Must provide a fill_value if strategy is 'constant'.'')) \<and>
         (cs = [] \<longrightarrow> handle_missing_values df ''constant'' sel fv = Inr df) \<and>
         (cs \<noteq> [] \<and> set cs \<subseteq> fst ` set df \<and> distinct (map fst df) \<longrightarrow>
            handle_missing_values df ''constant'' sel (Some v) =
              Inr (map (\<lambda>(n, col). (n, if n \<in> set cs then fillna v col else col)) df))"
proof (intro conjI impI)
  assume "cs \<noteq> []"
  with assms show "handle_missing_values df ''constant'' sel None =
      Inl (ValueError ''Must provide a fill_value if strategy is 'constant'.'')"
    by (simp add: constant_without_fill)
next
  assume "cs = []"
  with assms show "handle_missing_values df ''constant'' sel fv = Inr df"
    by (simp add: handle_missing_values_def)
next
  assume a: "cs \<noteq> [] \<and> set cs \<subseteq> fst ` set df \<and> distinct (map fst df)"
  then have sel: "select_columns df cs = Inr (map (\<lambda>c. the (map_of df c)) cs)"
    by (simp add: select_columns_total)
  have same: "handle_missing_values df ''constant'' sel (Some v) =
      handle_missing_values df ''constant'' (Some cs) (Some v)"
    using assms by (simp add: handle_missing_values_def)
  have "handle_missing_values df ''constant'' (Some cs) (Some v) =
     Inr (replaced (set cs) (\<lambda>n. fillna v (the (map_of df n))) df)"
    using sel a by (simp add: constant_with_fill)
  with same a show "handle_missing_values df ''constant'' sel (Some v) =
      Inr (map (\<lambda>(n, col). (n, if n \<in> set cs then fillna v col else col)) df)"
    by (simp add: replaced_distinct)
qed

theorem handle_missing_values_constant_witness:
  "handle_missing_values gaps ''constant'' None None =
      Inl (ValueError ''Must provide a fill_value if strategy is 'constant'.'') \<and>
   handle_missing_values gaps ''constant'' (Some []) None = Inr gaps \<and>
   handle_missing_values gaps ''constant'' None (Some (Num 0)) =
      Inr [(''a'', [Num 1, Num 0]), (''b'', [Txt ''x'', Txt ''y'']), (''c'', [Num 0, Num 0])]"
proof -
  have m: "missing_columns gaps = [''a'', ''c'']"
    by (simp add: missing_columns_def gaps_def)
  have 1: "[''a'', ''c''] = (case None of None \<Rightarrow> missing_columns gaps | Some l \<Rightarrow> l)"
    by (simp add: m)
  have 2: "[] = (case Some [] of None \<Rightarrow> missing_columns gaps | Some l \<Rightarrow> l)"
    by simp
  show ?thesis
    using handle_missing_values_constant [OF 1, of None "Num 0"]
      handle_missing_values_constant [OF 2, of None "Num 0"]
    by (simp add: gaps_def fillna_def)
qed

section \<open>Text cleaning: the example\<close>

lemma clean_text_trace_hello:
  "clean_text_trace hello ''text'' True True True =
     [[(''text'', [Txt '' he!!o ''])], [(''text'', [Txt ''he!!o''])],
      [(''text'', [Txt ''heo''])]]"
  by (simp add: hello_def clean_text_trace_def clean_text_statements_def str_assign_def
      getcol_def str_method_def setcol_def py_lower_def lower_char_def py_strip_def
      is_space_def remove_special_chars_def is_alnum_def)

lemma clean_text_column_hello:
  "clean_text_column hello ''text'' True True True = Inr [(''text'', [Txt ''heo''])]"
  by (simp add: hello_def clean_text_column_def clean_text_statements_def str_assign_def
      getcol_def str_method_def setcol_def py_lower_def lower_char_def py_strip_def
      is_space_def remove_special_chars_def is_alnum_def)

text \<open>
  Claim C4, as stated: on the value \<^verbatim>\<open>" He!!o "\<close> the three operations are applied in
  the order strip, lowercase, remove. Then the column would hold \<^verbatim>\<open>"He!!o"\<close> after
  the first assignment, \<^verbatim>\<open>"he!!o"\<close> after the second and \<^verbatim>\<open>"heo"\<close> after the third.
  These are not the states the function goes through.
\<close>

theorem clean_text_order_counterexample:
  "clean_text_trace [(''text'', [Txt '' He!!o ''])] ''text'' True True True \<noteq>
     [[(''text'', [Txt ''He!!o''])], [(''text'', [Txt ''he!!o''])],
      [(''text'', [Txt ''heo''])]]"
  using clean_text_trace_hello by (simp add: hello_def)

text \<open>
  Claim C4, amended. With the three flags enabled the value \<^verbatim>\<open>" He!!o "\<close> becomes
  \<^verbatim>\<open>"heo"\<close>, and the operations are applied in the order lowercase, strip, remove: the
  column holds \<^verbatim>\<open>" he!!o "\<close>, then \<^verbatim>\<open>"he!!o"\<close>, then \<^verbatim>\<open>"heo"\<close>.
\<close>

theorem clean_text_column_example:
  "clean_text_column [(''text'', [Txt '' He!!o ''])] ''text'' True True True =
     Inr [(''text'', [Txt ''heo''])] \<and>
   clean_text_trace [(''text'', [Txt '' He!!o ''])] ''text'' True True True =
     [[(''text'', [Txt '' he!!o ''])], [(''text'', [Txt ''he!!o''])],
      [(''text'', [Txt ''heo''])]]"
  using clean_text_trace_hello clean_text_column_hello by (simp add: hello_def)

section \<open>Outliers: the example and the bounds\<close>

lemma quantile_five:
  "quantile [1, 2, 3, 4, 100] (1/4) = Some 2"
  "quantile [1, 2, 3, 4, 100] (3/4) = Some 4"
  by (simp_all add: quantile_def)

lemma nine_bounds:
  "iqr_bounds nine ''x'' (3/2) =
     Inr (Some \<lparr>Q1 = 2, Q3 = 4, IQR = 2, lower_bound = -1, upper_bound = 7\<rparr>)"
  by (simp add: iqr_bounds_def nine_def getcol_def numeric_col_def quantile_def)

text \<open>
  Claim C8. In a table whose column \<open>c\<close> holds 1, 2, 3, 4, 100, the removal with factor
  1.5 computes Q1 = 2, Q3 = 4, IQR = 2 and the bounds -1 and 7, and keeps the first four
  rows of every column. In general the column is left with exactly its numbers between
  the two bounds, the bounds included.
\<close>

theorem remove_outliers_iqr_bounds:
  "(getcol df c = Inr [Num 1, Num 2, Num 3, Num 4, Num 100] \<longrightarrow>
      iqr_bounds df c (3/2) =
        Inr (Some \<lparr>Q1 = 2, Q3 = 4, IQR = 2, lower_bound = -1, upper_bound = 7\<rparr>) \<and>
      remove_outliers_iqr df c (3/2) = Inr (keep_rows [True, True, True, True, False] df)) \<and>
   (getcol df c = Inr col \<and> iqr_bounds df c f = Inr (Some b) \<longrightarrow>
      (\<exists>df'. remove_outliers_iqr df c f = Inr df' \<and>
         getcol df' c =
           Inr (filter (\<lambda>x. case x of Num v \<Rightarrow> lower_bound b \<le> v \<and> v \<le> upper_bound b
                                   | _ \<Rightarrow> False) col)))"
proof (intro conjI impI)
  assume g: "getcol df c = Inr [Num 1, Num 2, Num 3, Num 4, Num 100]"
  then show b: "iqr_bounds df c (3/2) =
        Inr (Some \<lparr>Q1 = 2, Q3 = 4, IQR = 2, lower_bound = -1, upper_bound = 7\<rparr>)"
    by (simp add: iqr_bounds_def numeric_col_def quantile_five)
  show "remove_outliers_iqr df c (3/2) = Inr (keep_rows [True, True, True, True, False] df)"
    by (simp add: remove_outliers_iqr_def b g)
next
  assume a: "getcol df c = Inr col \<and> iqr_bounds df c f = Inr (Some b)"
  have w: "within_bounds (Some b) =
      (\<lambda>x. case x of Num v \<Rightarrow> lower_bound b \<le> v \<and> v \<le> upper_bound b | _ \<Rightarrow> False)"
    by (rule ext) (simp split: cell.splits)
  from a have r: "remove_outliers_iqr df c f =
      Inr (keep_rows (map (within_bounds (Some b)) col) df)"
    by (simp add: remove_outliers_iqr_def)
  from a have "getcol (keep_rows (map (within_bounds (Some b)) col) df) c
     = Inr (filter (within_bounds (Some b)) col)"
    by (simp add: getcol_keep_rows)
  with r w show "\<exists>df'. remove_outliers_iqr df c f = Inr df' \<and>
         getcol df' c =
           Inr (filter (\<lambda>x. case x of Num v \<Rightarrow> lower_bound b \<le> v \<and> v \<le> upper_bound b
                                   | _ \<Rightarrow> False) col)"
    by simp
qed

text \<open>
  The table \<open>five\<close> loses its fifth row. The table \<open>nine\<close> has the same bounds and
  holds both of them, -1 and 7: they stay, and 100 goes.
\<close>

theorem remove_outliers_iqr_bounds_witness:
  "iqr_bounds five ''x'' (3/2) =
     Inr (Some \<lparr>Q1 = 2, Q3 = 4, IQR = 2, lower_bound = -1, upper_bound = 7\<rparr>) \<and>
   remove_outliers_iqr five ''x'' (3/2) =
     Inr [(''id'', [Txt ''a'', Txt ''b'', Txt ''c'', Txt ''d'']),
          (''x'', [Num 1, Num 2, Num 3, Num 4])] \<and>
   (\<exists>df'. remove_outliers_iqr nine ''x'' (3/2) = Inr df' \<and>
      getcol df' ''x'' = Inr [Num 2, Num (-1), Num 3, Num 7, Num 4, Num 2, Num 3, Num 4])"
proof -
  have g5: "getcol five ''x'' = Inr [Num 1, Num 2, Num 3, Num 4, Num 100]"
    by (simp add: five_def getcol_def)
  have g9: "getcol nine ''x'' =
      Inr [Num 100, Num 2, Num (-1), Num 3, Num 7, Num 4, Num 2, Num 3, Num 4]"
    by (simp add: nine_def getcol_def)
  have k: "keep_rows [True, True, True, True, False] five =
      [(''id'', [Txt ''a'', Txt ''b'', Txt ''c'', Txt ''d'']),
       (''x'', [Num 1, Num 2, Num 3, Num 4])]"
    by (simp add: keep_rows_def five_def)
  from remove_outliers_iqr_bounds
    [of five "''x''" "[Num 1, Num 2, Num 3, Num 4, Num 100]"] g5 k
  have a: "iqr_bounds five ''x'' (3/2) =
     Inr (Some \<lparr>Q1 = 2, Q3 = 4, IQR = 2, lower_bound = -1, upper_bound = 7\<rparr>) \<and>
   remove_outliers_iqr five ''x'' (3/2) =
     Inr [(''id'', [Txt ''a'', Txt ''b'', Txt ''c'', Txt ''d'']),
          (''x'', [Num 1, Num 2, Num 3, Num 4])]"
    by simp
  from remove_outliers_iqr_bounds
    [of nine "''x''" "[Num 100, Num 2, Num (-1), Num 3, Num 7, Num 4, Num 2, Num 3, Num 4]"
      "3/2" "\<lparr>Q1 = 2, Q3 = 4, IQR = 2, lower_bound = -1, upper_bound = 7\<rparr>"]
    g9 nine_bounds
  have b: "\<exists>df'. remove_outliers_iqr nine ''x'' (3/2) = Inr df' \<and>
      getcol df' ''x'' = Inr [Num 2, Num (-1), Num 3, Num 7, Num 4, Num 2, Num 3, Num 4]"
    by simp
  from a b show ?thesis by simp
qed

section \<open>Normalisation: the example\<close>

lemma minmax_example:
  "normalize_data [(''x'', [Num 0, Num 5, Num 10])] [''x''] ''minmax'' =
     Inr [(''x'', [Num 0, Num (1/2), Num 1])]"
  by (simp add: normalize_data_def getcol_def scaler_fit_transform_def numeric_col_def
      minmax_scale_def map_numbers_def assign_columns_def setcol_def)

lemma standard_example:
  "normalize_data [(''x'', [Num 0, Num 5, Num 10])] [''x''] ''standard'' =
     Inr [(''x'', [Num (- (5 / sqrt (50/3))), Num 0, Num (5 / sqrt (50/3))])]"
  by (simp add: normalize_data_def getcol_def scaler_fit_transform_def numeric_col_def
      standard_scale_def map_numbers_def assign_columns_def setcol_def mean_def variance_def
      power2_eq_square Let_def)

lemma standard_example_mean: "mean [- (5 / sqrt (50/3)), 0, 5 / sqrt (50/3)] = 0"
  by (simp add: mean_def)

lemma standard_example_variance: "variance [- (5 / sqrt (50/3)), 0, 5 / sqrt (50/3)] = 1"
  by (simp add: variance_def standard_example_mean power_divide)

text \<open>
  Claim C9. On the column 0, 5, 10 the method \<^verbatim>\<open>'minmax'\<close> gives 0, 1/2, 1, and the
  method \<^verbatim>\<open>'standard'\<close> gives three numbers of mean 0 and of variance 1, the variance
  being the population variance (divisor \<open>n\<close>) that StandardScaler itself uses.
\<close>

theorem normalize_data_example:
  "normalize_data [(''x'', [Num 0, Num 5, Num 10])] [''x''] ''minmax'' =
     Inr [(''x'', [Num 0, Num (1/2), Num 1])] \<and>
   (\<exists>col. normalize_data [(''x'', [Num 0, Num 5, Num 10])] [''x''] ''standard'' =
             Inr [(''x'', col)] \<and>
          length col = 3 \<and> length (numbers col) = 3 \<and>
          mean (numbers col) = 0 \<and> variance (numbers col) = 1)"
  using minmax_example standard_example standard_example_mean standard_example_variance
  by simp

section \<open>Type conversion: failures are caught\<close>

lemma convert_column_type_Inr: "\<exists>df'. convert_column_type cast df c t = Inr df'"
  by (simp add: convert_column_type_def split: sum.splits)

lemma convert_column_type_failed:
  "bind_err (getcol df c) (cast t) = Inl e \<Longrightarrow> convert_column_type cast df c t = Inr df"
  by (cases "getcol df c") (auto simp: convert_column_type_def split: sum.splits)

lemma convert_loop_Cons:
  "convert_loop cast ((c, t) # rest) (calls, Inr df) =
     convert_loop cast rest
       (calls @ [Call_convert_column_type c], convert_column_type cast df c t)"
  by (simp add: convert_loop_def)

lemma convert_loop_Inr:
  "\<exists>df'. convert_loop cast entries (calls, Inr df) =
     (calls @ map (\<lambda>(c, t). Call_convert_column_type c) entries, Inr df')"
proof (induction entries arbitrary: calls df)
  case Nil
  then show ?case by (simp add: convert_loop_def)
next
  case (Cons e entries)
  obtain c t where e: "e = (c, t)" by (cases e)
  obtain d where d: "convert_column_type cast df c t = Inr d"
    using convert_column_type_Inr [of cast df c t] by blast
  from Cons [of "calls @ [Call_convert_column_type c]" d] e d
  show ?case by (simp add: convert_loop_Cons)
qed

text \<open>
  Claim C6. \<^verbatim>\<open>convert_column_type\<close> always returns a table, whatever the cast does. The
  loop over the mapping returns a table too and has called the converter for every entry,
  in order. When reading or casting the column \<open>c\<close> fails, the table is returned as it
  was, and the loop goes on with the remaining entries on that table.
\<close>

theorem convert_column_type_never_raises:
  "(\<exists>df'. convert_column_type cast df c t = Inr df') \<and>
   (\<exists>df'. convert_loop cast entries (calls, Inr df) =
       (calls @ map (\<lambda>(c, t). Call_convert_column_type c) entries, Inr df')) \<and>
   ((\<exists>e. bind_err (getcol df c) (cast t) = Inl e) \<longrightarrow>
       convert_column_type cast df c t = Inr df \<and>
       convert_loop cast ((c, t) # rest) (calls, Inr df) =
         convert_loop cast rest (calls @ [Call_convert_column_type c], Inr df))"
  using convert_column_type_Inr [of cast df c t] convert_loop_Inr [of cast entries calls df]
  by (auto simp: convert_loop_Cons convert_column_type_failed)

text \<open>
  In the table \<open>mixed\<close> the column a holds a text and cannot be cast to \<^verbatim>\<open>int\<close>; the
  column b, the second entry of the mapping, is converted all the same.
\<close>

theorem convert_column_type_never_raises_witness:
  "bind_err (getcol mixed ''a'') (cast_int ''int'') =
     Inl (ValueError ''cannot convert to integer'') \<and>
   convert_column_type cast_int mixed ''a'' ''int'' = Inr mixed \<and>
   convert_loop cast_int [(''a'', ''int''), (''b'', ''int'')] ([], Inr mixed) =
     ([Call_convert_column_type ''a'', Call_convert_column_type ''b''],
      Inr [(''a'', [Txt ''x'', Num 1]), (''b'', [Num 1, Num 2])])"
proof -
  have f: "bind_err (getcol mixed ''a'') (cast_int ''int'') =
      Inl (ValueError ''cannot convert to integer'')"
    by (simp add: mixed_def getcol_def cast_int_def)
  have b: "convert_loop cast_int [(''b'', ''int'')]
      ([Call_convert_column_type ''a''], Inr mixed) =
     ([Call_convert_column_type ''a'', Call_convert_column_type ''b''],
      Inr [(''a'', [Txt ''x'', Num 1]), (''b'', [Num 1, Num 2])])"
    by (simp add: convert_loop_def convert_column_type_def mixed_def getcol_def cast_int_def
        map_numbers_def setcol_def)
  from f have ex: "\<exists>e. bind_err (getcol mixed ''a'') (cast_int ''int'') = Inl e" by blast
  from convert_column_type_never_raises
    [of cast_int mixed "''a''" "''int''" "[]" "[]" "[(''b'', ''int'')]"] ex f b
  show ?thesis by simp
qed

section \<open>Outliers: one column after the other\<close>

lemma outlier_loop_snoc:
  "outlier_loop (cs @ [c]) f st =
     invoke (Call_remove_outliers_iqr c) (\<lambda>d. remove_outliers_iqr d c f) (outlier_loop cs f st)"
  by (simp add: outlier_loop_def)

lemma outlier_loop_Cons:
  "outlier_loop (c # cs) f (calls, Inr df) =
     outlier_loop cs f (calls @ [Call_remove_outliers_iqr c], remove_outliers_iqr df c f)"
  by (simp add: outlier_loop_def)

lemma outlier_loop_calls:
  "outlier_loop cs f (calls, r) = (calls', Inr d) \<Longrightarrow>
   calls' = calls @ map Call_remove_outliers_iqr cs"
proof (induction cs arbitrary: calls r)
  case Nil
  then show ?case by (simp add: outlier_loop_def)
next
  case (Cons c cs)
  show ?case
  proof (cases r)
    case (Inl e)
    with Cons.prems show ?thesis by simp
  next
    case (Inr df)
    with Cons.prems have "outlier_loop cs f
        (calls @ [Call_remove_outliers_iqr c], remove_outliers_iqr df c f) = (calls', Inr d)"
      by (simp add: outlier_loop_Cons)
    from Cons.IH [OF this] show ?thesis by simp
  qed
qed

lemma bounds_b_filtered: "iqr_bounds two_cols_a ''b'' (3/2) =
   Inr (Some \<lparr>Q1 = 43/4, Q3 = 14, IQR = 13/4, lower_bound = 47/8, upper_bound = 151/8\<rparr>)"
  by (simp add: iqr_bounds_def two_cols_a_def getcol_def numeric_col_def quantile_def)

lemma bounds_b_original: "iqr_bounds two_cols ''b'' (3/2) =
   Inr (Some \<lparr>Q1 = 11, Q3 = 20, IQR = 9, lower_bound = -5/2, upper_bound = 67/2\<rparr>)"
  by (simp add: iqr_bounds_def two_cols_def getcol_def numeric_col_def quantile_def)

lemma later_steps_Inl [simp]: "later_steps env cfg (calls, Inl e) = (calls, Inl e)"
  by (simp add: later_steps_def Let_def)

lemma clean_data_stages:
  assumes "import_data env fp None = Some df0"
  shows "clean_data env fp cfg =
     returned (later_steps env cfg
       ((if truthy (outlier_cols cfg)
         then outlier_loop (items (outlier_cols cfg)) (outlier_factor cfg)
         else id)
        (invoke Call_handle_missing_values
           (\<lambda>df. handle_missing_values df (strategy cfg) None None)
           ([Call_import_data fp], Inr df0))))"
  using assms by (simp add: clean_data_def later_steps_def returned_def Let_def)

text \<open>
  Claim C3. Let \<^verbatim>\<open>clean_data\<close> import a table and be configured with the outlier
  columns \<open>cs @ c # rest\<close>. If the missing-value handler raises, the pipeline ends
  there, without an outlier call. If it returns a table, \<^verbatim>\<open>remove_outliers_iqr\<close> is
  called for the columns \<open>cs\<close> in their order; if one of these calls raises, the
  pipeline ends with that exception; if they leave the table \<open>d\<close>, the next call is
  the one for \<open>c\<close>, its quartiles and bounds are those of \<open>d\<close>, the table as
  filtered by the columns before it, and its rows are taken from \<open>d\<close>. The pipeline
  goes on from there with the columns \<open>rest\<close> and the later steps.
\<close>

theorem clean_data_outliers_sequential:
  assumes "import_data env fp None = Some df0"
    and "outlier_cols cfg = Some (cs @ c # rest)"
  shows
   "(handle_missing_values df0 (strategy cfg) None None = Inl e \<longrightarrow>
       clean_data env fp cfg = ([Call_import_data fp, Call_handle_missing_values], Inl e)) \<and>
    (handle_missing_values df0 (strategy cfg) None None = Inr dfm \<and>
     outlier_loop cs (outlier_factor cfg)
       ([Call_import_data fp, Call_handle_missing_values], Inr dfm) = (calls, Inl err) \<longrightarrow>
       clean_data env fp cfg = (calls, Inl err)) \<and>
    (handle_missing_values df0 (strategy cfg) None None = Inr dfm \<and>
     outlier_loop cs (outlier_factor cfg)
       ([Call_import_data fp, Call_handle_missing_values], Inr dfm) = (calls, Inr d) \<longrightarrow>
       calls = [Call_import_data fp, Call_handle_missing_values] @
               map Call_remove_outliers_iqr cs \<and>
       clean_data env fp cfg =
         returned (later_steps env cfg
           (outlier_loop rest (outlier_factor cfg)
              (calls @ [Call_remove_outliers_iqr c],
               bind_err (iqr_bounds d c (outlier_factor cfg)) (\<lambda>b.
                 bind_err (getcol d c) (\<lambda>col.
                   Inr (keep_rows (map (within_bounds b) col) d)))))))"
proof -
  have t: "truthy (outlier_cols cfg)" and i: "items (outlier_cols cfg) = cs @ c # rest"
    using assms(2) by (simp_all add: truthy_def items_def)
  have split: "\<And>st. outlier_loop (cs @ c # rest) (outlier_factor cfg) st =
      outlier_loop rest (outlier_factor cfg)
        (invoke (Call_remove_outliers_iqr c)
           (\<lambda>d. remove_outliers_iqr d c (outlier_factor cfg))
           (outlier_loop cs (outlier_factor cfg) st))"
    by (simp add: outlier_loop_def)
  have stages: "clean_data env fp cfg =
     returned (later_steps env cfg
       (outlier_loop (cs @ c # rest) (outlier_factor cfg)
        (invoke Call_handle_missing_values
           (\<lambda>df. handle_missing_values df (strategy cfg) None None)
           ([Call_import_data fp], Inr df0))))"
    using clean_data_stages [OF assms(1), of cfg] t i by simp
  show ?thesis
  proof (intro conjI impI)
    assume "handle_missing_values df0 (strategy cfg) None None = Inl e"
    then show "clean_data env fp cfg =
        ([Call_import_data fp, Call_handle_missing_values], Inl e)"
      unfolding stages by (simp add: returned_def)
  next
    assume "handle_missing_values df0 (strategy cfg) None None = Inr dfm \<and>
       outlier_loop cs (outlier_factor cfg)
         ([Call_import_data fp, Call_handle_missing_values], Inr dfm) = (calls, Inl err)"
    then show "clean_data env fp cfg = (calls, Inl err)"
      unfolding stages split by (simp add: returned_def)
  next
    assume "handle_missing_values df0 (strategy cfg) None None = Inr dfm \<and>
       outlier_loop cs (outlier_factor cfg)
         ([Call_import_data fp, Call_handle_missing_values], Inr dfm) = (calls, Inr d)"
    then show "calls = [Call_import_data fp, Call_handle_missing_values] @
               map Call_remove_outliers_iqr cs"
      using outlier_loop_calls by blast
  next
    assume "handle_missing_values df0 (strategy cfg) None None = Inr dfm \<and>
       outlier_loop cs (outlier_factor cfg)
         ([Call_import_data fp, Call_handle_missing_values], Inr dfm) = (calls, Inr d)"
    then show "clean_data env fp cfg =
         returned (later_steps env cfg
           (outlier_loop rest (outlier_factor cfg)
              (calls @ [Call_remove_outliers_iqr c],
               bind_err (iqr_bounds d c (outlier_factor cfg)) (\<lambda>b.
                 bind_err (getcol d c) (\<lambda>col.
                   Inr (keep_rows (map (within_bounds b) col) d))))))"
      unfolding stages split by (simp add: remove_outliers_iqr_def)
  qed
qed

lemma import_one_csv: "import_data (one_csv df) ''data.csv'' None = Some df"
  by (simp add: import_data_def one_csv_def last_segment_def py_lower_def lower_char_def
      caught_def)

lemma two_cols_no_gaps: "handle_missing_values two_cols ''mean'' None None = Inr two_cols"
  by (simp add: handle_missing_values_def missing_columns_def two_cols_def)

lemma two_cols_loop_a:
  "outlier_loop [''a''] (3/2) ([Call_import_data ''data.csv'', Call_handle_missing_values],
      Inr two_cols) =
   ([Call_import_data ''data.csv'', Call_handle_missing_values, Call_remove_outliers_iqr ''a''],
    Inr two_cols_a)"
  by (simp add: outlier_loop_def remove_outliers_iqr_def iqr_bounds_def two_cols_def getcol_def
      numeric_col_def quantile_def keep_rows_def two_cols_a_def)

lemma two_cols_a_filter_b:
  "bind_err (iqr_bounds two_cols_a ''b'' (3/2)) (\<lambda>b.
     bind_err (getcol two_cols_a ''b'')
       (\<lambda>col. Inr (keep_rows (map (within_bounds b) col) two_cols_a)))
     = Inr [(''a'', [Num 1, Num 2, Num 3]), (''b'', [Num 10, Num 11, Num 12])]"
  by (simp add: bounds_b_filtered) (simp add: two_cols_a_def getcol_def keep_rows_def)

lemma later_steps_default:
  "later_steps (one_csv df) ab_config
     (calls, Inr [(''a'', [Num 1, Num 2, Num 3]), (''b'', [Num 10, Num 11, Num 12])]) =
   (calls @ [Call_remove_duplicates],
    Inr [(''a'', [Num 1, Num 2, Num 3]), (''b'', [Num 10, Num 11, Num 12])])"
  by (simp add: later_steps_def ab_config_def default_config_def truthy_def
      remove_duplicates_def drop_duplicates_def getcol_def row_keys_def nrows_def keep_rows_def)

text \<open>
  The file \<^verbatim>\<open>data.csv\<close> holds the table \<open>two_cols\<close>. With the outlier columns a and
  b the pipeline drops the fifth row for a, takes the bounds of b on the four rows left
  (upper bound 151/8) and drops the row with b = 20 as well; on the original table the
  upper bound of b is 67/2, which 20 does not exceed. With a first outlier column that
  the table does not have, the KeyError ends the pipeline before b is looked at; and
  when the missing-value handler raises, no outlier call is made.
\<close>

theorem clean_data_outliers_sequential_witness:
  "clean_data (one_csv two_cols) ''data.csv'' ab_config =
     ([Call_import_data ''data.csv'', Call_handle_missing_values,
       Call_remove_outliers_iqr ''a'', Call_remove_outliers_iqr ''b'', Call_remove_duplicates],
      Inr (Some [(''a'', [Num 1, Num 2, Num 3]), (''b'', [Num 10, Num 11, Num 12])])) \<and>
   iqr_bounds two_cols_a ''b'' (3/2) =
     Inr (Some \<lparr>Q1 = 43/4, Q3 = 14, IQR = 13/4, lower_bound = 47/8, upper_bound = 151/8\<rparr>) \<and>
   iqr_bounds two_cols ''b'' (3/2) =
     Inr (Some \<lparr>Q1 = 11, Q3 = 20, IQR = 9, lower_bound = -5/2, upper_bound = 67/2\<rparr>) \<and>
   clean_data (one_csv two_cols) ''data.csv'' zb_config =
     ([Call_import_data ''data.csv'', Call_handle_missing_values,
       Call_remove_outliers_iqr ''zz''], Inl (KeyError ''zz'')) \<and>
   clean_data (one_csv gaps) ''data.csv'' constant_ab_config =
     ([Call_import_data ''data.csv'', Call_handle_missing_values],
      Inl (ValueError ''Must provide a fill_value if strategy is 'constant'.''))"
proof -
  have cols: "outlier_cols ab_config = Some ([''a''] @ ''b'' # [])"
    by (simp add: ab_config_def)
  have hm: "handle_missing_values two_cols (strategy ab_config) None None = Inr two_cols"
    by (simp add: ab_config_def default_config_def two_cols_no_gaps)
  have la: "outlier_loop [''a''] (outlier_factor ab_config)
      ([Call_import_data ''data.csv'', Call_handle_missing_values], Inr two_cols) =
    ([Call_import_data ''data.csv'', Call_handle_missing_values,
      Call_remove_outliers_iqr ''a''], Inr two_cols_a)"
    using two_cols_loop_a by (simp add: ab_config_def default_config_def)
  have f: "outlier_factor ab_config = 3/2"
    by (simp add: ab_config_def default_config_def)
  have "clean_data (one_csv two_cols) ''data.csv'' ab_config =
         returned (later_steps (one_csv two_cols) ab_config
           (outlier_loop [] (outlier_factor ab_config)
              ([Call_import_data ''data.csv'', Call_handle_missing_values,
                Call_remove_outliers_iqr ''a''] @ [Call_remove_outliers_iqr ''b''],
               bind_err (iqr_bounds two_cols_a ''b'' (outlier_factor ab_config)) (\<lambda>b.
                 bind_err (getcol two_cols_a ''b'') (\<lambda>col.
                   Inr (keep_rows (map (within_bounds b) col) two_cols_a))))))"
    using clean_data_outliers_sequential [OF import_one_csv cols, where dfm = two_cols and d = two_cols_a
        and calls = "[Call_import_data ''data.csv'', Call_handle_missing_values,
          Call_remove_outliers_iqr ''a'']"] hm la
    by blast
  then have 1: "clean_data (one_csv two_cols) ''data.csv'' ab_config =
     ([Call_import_data ''data.csv'', Call_handle_missing_values,
       Call_remove_outliers_iqr ''a'', Call_remove_outliers_iqr ''b'', Call_remove_duplicates],
      Inr (Some [(''a'', [Num 1, Num 2, Num 3]), (''b'', [Num 10, Num 11, Num 12])]))"
    unfolding f two_cols_a_filter_b
    by (simp add: outlier_loop_def later_steps_default returned_def)
  have zcols: "outlier_cols zb_config = Some ([''zz''] @ ''b'' # [])"
    by (simp add: zb_config_def)
  have zhm: "handle_missing_values two_cols (strategy zb_config) None None = Inr two_cols"
    by (simp add: zb_config_def default_config_def two_cols_no_gaps)
  have zl: "outlier_loop [''zz''] (outlier_factor zb_config)
      ([Call_import_data ''data.csv'', Call_handle_missing_values], Inr two_cols) =
    ([Call_import_data ''data.csv'', Call_handle_missing_values,
      Call_remove_outliers_iqr ''zz''], Inl (KeyError ''zz''))"
    by (simp add: outlier_loop_def remove_outliers_iqr_def iqr_bounds_def two_cols_def
        getcol_def)
  have 2: "clean_data (one_csv two_cols) ''data.csv'' zb_config =
     ([Call_import_data ''data.csv'', Call_handle_missing_values,
       Call_remove_outliers_iqr ''zz''], Inl (KeyError ''zz''))"
    using clean_data_outliers_sequential [OF import_one_csv zcols, where dfm = two_cols and err = "KeyError ''zz''"
        and calls = "[Call_import_data ''data.csv'', Call_handle_missing_values,
          Call_remove_outliers_iqr ''zz'']"] zhm zl
    by blast
  have ccols: "outlier_cols constant_ab_config = Some ([''a''] @ ''b'' # [])"
    by (simp add: constant_ab_config_def ab_config_def)
  have chm: "handle_missing_values gaps (strategy constant_ab_config) None None =
      Inl (ValueError ''Must provide a fill_value if strategy is 'constant'.'')"
    by (simp add: constant_ab_config_def handle_missing_values_def missing_columns_def
        gaps_def)
  have 3: "clean_data (one_csv gaps) ''data.csv'' constant_ab_config =
     ([Call_import_data ''data.csv'', Call_handle_missing_values],
      Inl (ValueError ''Must provide a fill_value if strategy is 'constant'.''))"
    using clean_data_outliers_sequential [OF import_one_csv ccols,
        where e = "ValueError ''Must provide a fill_value if strategy is 'constant'.''"] chm
    by blast
  from 1 2 3 bounds_b_filtered bounds_b_original show ?thesis by blast
qed

section \<open>What normalisation and text cleaning leave alone\<close>

lemma same_outside_refl: "same_outside S df df"
  by (auto simp: same_outside_def list_all2_same)

lemma same_outside_trans:
  assumes "same_outside S a b" "same_outside S b c"
  shows "same_outside S a c"
  unfolding same_outside_def
proof (rule list_all2_trans)
  show "list_all2 (\<lambda>(n, col) (n', col').
      n' = n \<and> length col' = length col \<and> (n \<notin> S \<longrightarrow> col' = col)) a b"
    using assms(1) unfolding same_outside_def .
  show "list_all2 (\<lambda>(n, col) (n', col').
      n' = n \<and> length col' = length col \<and> (n \<notin> S \<longrightarrow> col' = col)) b c"
    using assms(2) unfolding same_outside_def .
qed auto

lemma same_outside_names: "same_outside S df df' \<Longrightarrow> map fst df' = map fst df"
  unfolding same_outside_def
  by (induction df df' rule: list_all2_induct) auto

lemma same_outside_replaced:
  assumes "\<And>n col. (n, col) \<in> set df \<Longrightarrow> n \<in> S \<Longrightarrow> length (g n) = length col"
  shows "same_outside S df (replaced S g df)"
  using assms
  by (auto simp: same_outside_def replaced_def list_all2_map2 list_all2_same)

lemma distinct_map_of:
  "distinct (map fst df) \<Longrightarrow> (n, col) \<in> set df \<Longrightarrow> map_of df n = Some col"
  by simp

lemma same_outside_replaced_by:
  assumes "distinct (map fst df)" "\<And>col. length (f col) = length col"
  shows "same_outside S df (replaced S (\<lambda>n. f (the (map_of df n))) df)"
proof (rule same_outside_replaced)
  fix n col assume "(n, col) \<in> set df"
  with assms(1) have "map_of df n = Some col" by simp
  with assms(2) show "length (f (the (map_of df n))) = length col" by simp
qed

lemma length_standard_scale [simp]: "length (standard_scale col) = length col"
  by (simp add: standard_scale_def map_numbers_def Let_def)

lemma length_minmax_scale [simp]: "length (minmax_scale col) = length col"
  by (simp add: minmax_scale_def map_numbers_def Let_def)

lemma scaler_fit_transform_Inr:
  "scaler_fit_transform sc X = Inr arr \<Longrightarrow>
   arr = map (case sc of StandardScaler \<Rightarrow> standard_scale | MinMaxScaler \<Rightarrow> minmax_scale) X"
  by (auto simp: scaler_fit_transform_def split: if_splits)

lemma assign_selected:
  assumes "select_columns df cs = Inr sub"
  shows "assign_columns df cs (map f sub) = Inr (replaced (set cs) (\<lambda>n. f (the (map_of df n))) df)"
proof -
  from select_columns_Inr [OF assms]
  have sub: "set cs \<subseteq> fst ` set df" and eq: "sub = map (\<lambda>c. the (map_of df c)) cs"
    by simp_all
  have "assign_each (replaced {} (\<lambda>n. f (the (map_of df n))) df) cs
          (map (\<lambda>n. f (the (map_of df n))) cs)
        = replaced ({} \<union> set cs) (\<lambda>n. f (the (map_of df n))) df"
    using sub by (rule assign_each_replaced)
  then show ?thesis
    using eq by (simp add: assign_columns_def comp_def)
qed

lemma normalize_data_frame:
  assumes "normalize_data df cs m = Inr df'" "distinct (map fst df)"
  shows "same_outside (set cs) df df'"
proof (cases "cs = []")
  case True
  with assms show ?thesis by (simp add: normalize_data_def same_outside_refl)
next
  case False
  with assms(1) obtain sc where
    r: "bind_err (select_columns df cs)
          (\<lambda>sub. bind_err (scaler_fit_transform sc sub) (\<lambda>arr. assign_columns df cs arr)) = Inr df'"
    by (auto simp: normalize_data_def split: if_splits)
  then obtain sub where s: "select_columns df cs = Inr sub"
    by (cases "select_columns df cs") auto
  with r obtain arr where a: "scaler_fit_transform sc sub = Inr arr"
    by (cases "scaler_fit_transform sc sub") auto
  let ?f = "case sc of StandardScaler \<Rightarrow> standard_scale | MinMaxScaler \<Rightarrow> minmax_scale"
  from a have "arr = map ?f sub" by (rule scaler_fit_transform_Inr)
  with r s a have "assign_columns df cs (map ?f sub) = Inr df'" by simp
  with assign_selected [OF s, of ?f]
  have d: "df' = replaced (set cs) (\<lambda>n. ?f (the (map_of df n))) df" by simp
  have "\<And>col. length (?f col) = length col" by (cases sc) simp_all
  with assms(2) show ?thesis unfolding d by (rule same_outside_replaced_by)
qed

lemma str_assign_frame:
  assumes "str_assign f c df = Inr df'" "distinct (map fst df)"
  shows "same_outside {c} df df'"
proof -
  from assms(1) obtain col where g: "getcol df c = Inr col"
    by (cases "getcol df c") (auto simp: str_assign_def)
  with assms(1) obtain new where m: "str_method f col = Inr new"
    and d: "df' = setcol df c new"
    by (cases "str_method f col") (auto simp: str_assign_def)
  from m have len: "length new = length col"
    by (auto simp: str_method_def split: if_splits)
  from g have mo: "map_of df c = Some col" by (rule getcol_Inr)
  then have "(c, col) \<in> set df" by (rule map_of_SomeD)
  then have "c \<in> fst ` set df" by force
  then have "setcol (replaced {} (\<lambda>n. new) df) c new = replaced (insert c {}) (\<lambda>n. new) df"
    by (rule setcol_replaced)
  with d have d': "df' = replaced {c} (\<lambda>n. new) df" by simp
  show ?thesis unfolding d'
  proof (rule same_outside_replaced)
    fix n col' assume "(n, col') \<in> set df" "n \<in> {c}"
    with assms(2) have "map_of df c = Some col'" by (simp add: map_of_is_SomeI)
    with mo have "col' = col" by simp
    with len show "length new = length col'" by simp
  qed
qed

lemma run_statements_frame:
  assumes "\<And>s d d'. s \<in> set ss \<Longrightarrow> s d = Inr d' \<Longrightarrow> distinct (map fst d) \<Longrightarrow> same_outside S d d'"
  shows "snd (run_statements ss df) = Inr df' \<Longrightarrow> distinct (map fst df) \<Longrightarrow> same_outside S df df'"
  using assms
proof (induction ss arbitrary: df)
  case Nil
  then show ?case by (simp add: same_outside_refl)
next
  case (Cons s ss)
  from Cons.prems(1) obtain d where sd: "s df = Inr d"
    by (cases "s df") auto
  with Cons.prems(1) have r: "snd (run_statements ss d) = Inr df'"
    by (simp split: prod.splits)
  from Cons.prems(3) [of s df d] sd Cons.prems(2) have 1: "same_outside S df d" by simp
  then have "map fst d = map fst df" by (rule same_outside_names)
  with Cons.prems(2) have dd: "distinct (map fst d)" by simp
  have "same_outside S d df'"
    using r dd
  proof (rule Cons.IH)
    fix s' x x' assume "s' \<in> set ss" "s' x = Inr x'" "distinct (map fst x)"
    then show "same_outside S x x'" using Cons.prems(3) [of s' x x'] by simp
  qed
  with 1 show ?case by (rule same_outside_trans)
qed

lemma clean_text_column_frame:
  assumes "clean_text_column df c l s p = Inr df'" "distinct (map fst df)"
  shows "same_outside {c} df df'"
proof (rule run_statements_frame [of "clean_text_statements c l s p"])
  fix st d d'
  assume "st \<in> set (clean_text_statements c l s p)" "st d = Inr d'" "distinct (map fst d)"
  then show "same_outside {c} d d'"
    by (auto simp: clean_text_statements_def split: if_splits intro: str_assign_frame)
next
  from assms(1) show "snd (run_statements (clean_text_statements c l s p) df) = Inr df'"
    by (simp add: clean_text_column_def)
next
  from assms(2) show "distinct (map fst df)" .
qed

lemma same_outside_nrows: "same_outside S df df' \<Longrightarrow> nrows df' = nrows df"
  unfolding same_outside_def nrows_def
  by (cases df; cases df') auto

text \<open>
  Claim C10. On a table with distinct column names, \<^verbatim>\<open>normalize_data\<close> with a non-empty
  column list changes the listed columns only, and \<^verbatim>\<open>clean_text_column\<close> the named
  column only: the column names and their order, the cells of every other column and the
  number of rows are those of the input.
\<close>

theorem frame_of_normalize_and_clean_text:
  "(distinct (map fst df) \<and> cs \<noteq> [] \<and> normalize_data df cs m = Inr df' \<longrightarrow>
      same_outside (set cs) df df' \<and> nrows df' = nrows df) \<and>
   (distinct (map fst df) \<and> clean_text_column df c l s p = Inr df'' \<longrightarrow>
      same_outside {c} df df'' \<and> nrows df'' = nrows df)"
  by (auto intro: normalize_data_frame clean_text_column_frame
      dest: same_outside_nrows [OF normalize_data_frame]
            same_outside_nrows [OF clean_text_column_frame])

lemma readings_normalized:
  "normalize_data readings [''x''] ''minmax'' =
     Inr [(''x'', [Num 0, Num (1/2), Num 1]), (''t'', [Txt '' He!!o '', Txt ''A'', Txt ''b''])]"
  by (simp add: readings_def normalize_data_def getcol_def scaler_fit_transform_def
      numeric_col_def minmax_scale_def map_numbers_def assign_columns_def setcol_def)

lemma readings_cleaned:
  "clean_text_column readings ''t'' True True True =
     Inr [(''x'', [Num 0, Num 5, Num 10]), (''t'', [Txt ''heo'', Txt ''a'', Txt ''b''])]"
  by (simp add: readings_def clean_text_column_def clean_text_statements_def str_assign_def
      getcol_def str_method_def setcol_def py_lower_def lower_char_def py_strip_def
      is_space_def remove_special_chars_def is_alnum_def)

text \<open>
  In the table \<open>readings\<close>, normalising x leaves the texts of t alone, and cleaning t
  leaves the numbers of x alone.
\<close>

theorem frame_of_normalize_and_clean_text_witness:
  "distinct (map fst readings) \<and>
   normalize_data readings [''x''] ''minmax'' =
     Inr [(''x'', [Num 0, Num (1/2), Num 1]), (''t'', [Txt '' He!!o '', Txt ''A'', Txt ''b''])] \<and>
   same_outside {''x''} readings
     [(''x'', [Num 0, Num (1/2), Num 1]), (''t'', [Txt '' He!!o '', Txt ''A'', Txt ''b''])] \<and>
   clean_text_column readings ''t'' True True True =
     Inr [(''x'', [Num 0, Num 5, Num 10]), (''t'', [Txt ''heo'', Txt ''a'', Txt ''b''])] \<and>
   same_outside {''t''} readings
     [(''x'', [Num 0, Num 5, Num 10]), (''t'', [Txt ''heo'', Txt ''a'', Txt ''b''])]"
proof -
  have d: "distinct (map fst readings)" by (simp add: readings_def)
  from frame_of_normalize_and_clean_text [of readings "[''x'']" "''minmax''"
      "[(''x'', [Num 0, Num (1/2), Num 1]), (''t'', [Txt '' He!!o '', Txt ''A'', Txt ''b''])]"
      "''t''" True True True
      "[(''x'', [Num 0, Num 5, Num 10]), (''t'', [Txt ''heo'', Txt ''a'', Txt ''b''])]"]
    d readings_normalized readings_cleaned
  show ?thesis by simp
qed

end
